theory Spec2Isabelle
  imports Complex_Main
begin

section \<open>The zoomable chart viewer (components/ChartModal.tsx)\<close>

text \<open>
  The viewer keeps its state in React hooks: \<^verbatim>\<open>scale\<close>, \<^verbatim>\<open>position\<close>, \<^verbatim>\<open>isDragging\<close>,
  the ref \<^verbatim>\<open>dragStartPos\<close>, and the four hooks of the continuation feature. Each
  handler is modelled as a function from the state at the time of the event to the
  state after it. JavaScript numbers are modelled as real numbers (exact arithmetic);
  the rounding of IEEE doubles is outside the model.
\<close>

record point =
  px :: real
  py :: real

record viewer =
  scale :: real
  position :: point
  isDragging :: bool
  dragStartPos :: point
  isGenerating :: bool
  continuedImageSrc :: "string option"
  viewingOriginal :: bool
  generationError :: "string option"

text \<open>The fields of a mouse event the handlers read, and of the container's bounding rectangle.\<close>

record mouse_event =
  clientX :: real
  clientY :: real

record wheel_event = mouse_event +
  deltaY :: real

record rect =
  rect_left :: real
  rect_top :: real

definition MIN_SCALE :: real where
  "MIN_SCALE = 1"

definition MAX_SCALE :: real where
  "MAX_SCALE = 8"

definition ZOOM_SENSITIVITY :: real where
  "ZOOM_SENSITIVITY = 0.002"

text \<open>The values the hooks are created with.\<close>

definition initial :: viewer where
  "initial = \<lparr>scale = 1, position = \<lparr>px = 0, py = 0\<rparr>, isDragging = False,
     dragStartPos = \<lparr>px = 0, py = 0\<rparr>, isGenerating = False, continuedImageSrc = None,
     viewingOriginal = True, generationError = None\<rparr>"

definition handleReset :: "viewer \<Rightarrow> viewer" where
  "handleReset s = s\<lparr>scale := 1, position := \<lparr>px = 0, py = 0\<rparr>\<rparr>"

definition handleMouseDown :: "mouse_event \<Rightarrow> viewer \<Rightarrow> viewer" where
  "handleMouseDown e s =
     (if scale s = 1 then s
      else s\<lparr>isDragging := True,
             dragStartPos := \<lparr>px = clientX e - px (position s),
                               py = clientY e - py (position s)\<rparr>\<rparr>)"

definition handleMouseUp :: "viewer \<Rightarrow> viewer" where
  "handleMouseUp s = s\<lparr>isDragging := False\<rparr>"

definition handleMouseMove :: "mouse_event \<Rightarrow> viewer \<Rightarrow> viewer" where
  "handleMouseMove e s =
     (if \<not> isDragging s then s
      else let newX = clientX e - px (dragStartPos s);
               newY = clientY e - py (dragStartPos s)
           in s\<lparr>position := \<lparr>px = newX, py = newY\<rparr>\<rparr>)"

text \<open>
  The scale the wheel handler computes before it compares it with the current one:
  \<^verbatim>\<open>Math.max(MIN_SCALE, Math.min(MAX_SCALE, scale * (1 + delta)))\<close> with
  \<^verbatim>\<open>delta = -e.deltaY * ZOOM_SENSITIVITY\<close>.
\<close>

definition newScale :: "wheel_event \<Rightarrow> viewer \<Rightarrow> real" where
  "newScale e s =
     (let delta = - deltaY e * ZOOM_SENSITIVITY
      in max MIN_SCALE (min MAX_SCALE (scale s * (1 + delta))))"

text \<open>
  \<^verbatim>\<open>containerRef.current\<close> is \<open>None\<close> when the ref is not attached (the handler then
  returns at once), and otherwise carries the rectangle \<^verbatim>\<open>getBoundingClientRect()\<close>
  returns. The handler is attached to the container element itself, so an event
  delivered by the browser finds the ref attached.
\<close>

definition handleWheel :: "rect option \<Rightarrow> wheel_event \<Rightarrow> viewer \<Rightarrow> viewer" where
  "handleWheel containerRef e s =
     (case containerRef of
        None \<Rightarrow> s
      | Some r \<Rightarrow>
          if newScale e s = scale s then s
          else let mouseX = clientX e - rect_left r;
                   mouseY = clientY e - rect_top r;
                   imageX = (mouseX - px (position s)) / scale s;
                   imageY = (mouseY - py (position s)) / scale s;
                   newX = mouseX - imageX * newScale e s;
                   newY = mouseY - imageY * newScale e s
               in s\<lparr>scale := newScale e s, position := \<lparr>px = newX, py = newY\<rparr>\<rparr>)"

text \<open>A finite sequence of wheel events, each with the container ref it finds.\<close>

fun wheels :: "(rect option \<times> wheel_event) list \<Rightarrow> viewer \<Rightarrow> viewer" where
  "wheels [] s = s"
| "wheels ((c, e) # es) s = wheels es (handleWheel c e s)"

text \<open>The pointer position relative to the container, as the wheel handler computes it.\<close>

definition pointer :: "rect \<Rightarrow> wheel_event \<Rightarrow> point" where
  "pointer r e = \<lparr>px = clientX e - rect_left r, py = clientY e - rect_top r\<rparr>"

text \<open>
  The clamp of the specification, \<^verbatim>\<open>clamp(v, lo, hi)\<close>, written from its words: a value
  below the range becomes the lower bound, a value above it the upper bound.
\<close>

definition clamp :: "real \<Rightarrow> real \<Rightarrow> real \<Rightarrow> real" where
  "clamp v lo hi = (if v < lo then lo else if hi < v then hi else v)"

section \<open>JavaScript values and exceptions\<close>

text \<open>
  The value \<^verbatim>\<open>JSON.parse\<close> returns, and the values read from it. An object is the list
  of its own properties, looked up by key; \<open>JUndefined\<close> is what reading an absent
  property gives (\<^verbatim>\<open>JSON.parse\<close> itself never returns it). Numbers are reals, as in the
  viewer.
\<close>

datatype jsval =
    JUndefined
  | JNull
  | JBool bool
  | JNum real
  | JStr string
  | JArr "jsval list"
  | JObj "(string \<times> jsval) list"

text \<open>
  A thrown value is either an instance of \<^verbatim>\<open>Error\<close> (of the class itself or of a
  subclass) with its message, or any other value; \<^verbatim>\<open>error instanceof Error\<close> tells
  the two apart.
\<close>

datatype error_class = Error | TypeError | SyntaxError | OtherError

datatype thrown = Exn error_class string | NonError

type_synonym 'a js = "thrown + 'a"

text \<open>The conversion to boolean that \<^verbatim>\<open>!v\<close> applies.\<close>

fun truthy :: "jsval \<Rightarrow> bool" where
  "truthy JUndefined = False"
| "truthy JNull = False"
| "truthy (JBool b) = b"
| "truthy (JNum n) = (n \<noteq> 0)"
| "truthy (JStr s) = (s \<noteq> [])"
| "truthy (JArr vs) = True"
| "truthy (JObj kvs) = True"

fun typeof :: "jsval \<Rightarrow> string" where
  "typeof JUndefined = ''undefined''"
| "typeof JNull = ''object''"
| "typeof (JBool b) = ''boolean''"
| "typeof (JNum n) = ''number''"
| "typeof (JStr s) = ''string''"
| "typeof (JArr vs) = ''object''"
| "typeof (JObj kvs) = ''object''"

text \<open>
  The TypeError of a property read on \<^verbatim>\<open>undefined\<close> or \<^verbatim>\<open>null\<close>. The message is the
  engine's (here V8's wording); nothing below depends on its text.
\<close>

definition cannot_read :: "string \<Rightarrow> string \<Rightarrow> thrown" where
  "cannot_read base k =
     Exn TypeError (''Cannot read properties of '' @ base @ '' (reading ''
                    @ [CHR 0x27] @ k @ [CHR 0x27] @ '')'')"

text \<open>
  The property read \<^verbatim>\<open>v.k\<close>, for the keys the validation reads (\<^verbatim>\<open>prediction\<close>,
  \<^verbatim>\<open>recommendation\<close>, \<^verbatim>\<open>confidence\<close>, \<^verbatim>\<open>rationale\<close>, \<^verbatim>\<open>annotation\<close>, \<^verbatim>\<open>type\<close>,
  \<^verbatim>\<open>start\<close>, \<^verbatim>\<open>end\<close>, \<^verbatim>\<open>x\<close>, \<^verbatim>\<open>y\<close>): none of them is a property of the string, number,
  boolean, array or object prototypes, so only an object's own property gives a value.
\<close>

fun get :: "jsval \<Rightarrow> string \<Rightarrow> jsval js" where
  "get JUndefined k = Inl (cannot_read ''undefined'' k)"
| "get JNull k = Inl (cannot_read ''null'' k)"
| "get (JObj kvs) k = Inr (case map_of kvs k of None \<Rightarrow> JUndefined | Some v \<Rightarrow> v)"
| "get v k = Inr JUndefined"

text \<open>A chain of property reads, \<^verbatim>\<open>v.k1.k2\<close>, left to right.\<close>

fun read :: "jsval \<Rightarrow> string list \<Rightarrow> jsval js" where
  "read v [] = Inr v"
| "read v (k # ks) = (case get v k of Inl e \<Rightarrow> Inl e | Inr w \<Rightarrow> read w ks)"

section \<open>The analysis service (services/geminiService.ts)\<close>

text \<open>\<^verbatim>\<open>Object.values(Recommendation)\<close> of the string enum in types.ts.\<close>

definition Recommendation :: "string list" where
  "Recommendation = [''BUY'', ''SELL'', ''HOLD'']"

text \<open>
  The three kinds of test in the condition of the validating \<^verbatim>\<open>if\<close>: \<^verbatim>\<open>!e\<close>,
  \<^verbatim>\<open>typeof e !== 'number'\<close> and \<^verbatim>\<open>!Object.values(Recommendation).includes(e)\<close>, each
  on an expression that may throw.
\<close>

definition falsy :: "jsval js \<Rightarrow> bool js" where
  "falsy x = (case x of Inl e \<Rightarrow> Inl e | Inr v \<Rightarrow> Inr (\<not> truthy v))"

definition not_number :: "jsval js \<Rightarrow> bool js" where
  "not_number x = (case x of Inl e \<Rightarrow> Inl e | Inr v \<Rightarrow> Inr (typeof v \<noteq> ''number''))"

definition not_included :: "string list \<Rightarrow> jsval js \<Rightarrow> bool js" where
  "not_included xs x = (case x of Inl e \<Rightarrow> Inl e | Inr v \<Rightarrow> Inr (v \<notin> set (map JStr xs)))"

text \<open>
  The chain \<^verbatim>\<open>c1 || c2 || ...\<close>: the operands are evaluated in order, and the first that
  is true, or that throws, ends the evaluation.
\<close>

fun any_of :: "bool js list \<Rightarrow> bool js" where
  "any_of [] = Inr False"
| "any_of (c # cs) =
     (case c of Inl e \<Rightarrow> Inl e | Inr True \<Rightarrow> Inr True | Inr False \<Rightarrow> any_of cs)"

text \<open>The condition of the \<^verbatim>\<open>if\<close> at lines 99 to 113, operand by operand.\<close>

definition invalid :: "jsval \<Rightarrow> bool js" where
  "invalid result = any_of
     [falsy (read result [''prediction'']),
      falsy (read result [''recommendation'']),
      not_included Recommendation (read result [''recommendation'']),
      not_number (read result [''confidence'']),
      falsy (read result [''rationale'']),
      falsy (read result [''annotation'']),
      falsy (read result [''annotation'', ''type'']),
      falsy (read result [''annotation'', ''start'']),
      not_number (read result [''annotation'', ''start'', ''x'']),
      not_number (read result [''annotation'', ''start'', ''y'']),
      falsy (read result [''annotation'', ''end'']),
      not_number (read result [''annotation'', ''end'', ''x'']),
      not_number (read result [''annotation'', ''end'', ''y''])]"

text \<open>
  The validation of \<^verbatim>\<open>analyzeChart\<close> (lines 98 to 117): it throws when the condition
  holds and otherwise returns \<^verbatim>\<open>result as AnalysisResult\<close>, the decoded value itself.
\<close>

definition validated :: "jsval \<Rightarrow> jsval js" where
  "validated result =
     (case invalid result of
        Inl e \<Rightarrow> Inl e
      | Inr True \<Rightarrow> Inl (Exn Error ''Invalid analysis data structure received from API.'')
      | Inr False \<Rightarrow> Inr result)"

text \<open>
  The body of the \<^verbatim>\<open>try\<close> of \<^verbatim>\<open>analyzeChart\<close>. The outcome of the awaited service call
  is an input: a thrown value, or a response whose \<^verbatim>\<open>text\<close> is a string or undefined.
  \<^verbatim>\<open>String.prototype.trim\<close> and \<^verbatim>\<open>JSON.parse\<close> are the runtime's and are parameters;
  \<^verbatim>\<open>JSON.parse\<close> returns the decoded value or throws a SyntaxError with a message.
\<close>

definition analyzeChart_try ::
  "(string \<Rightarrow> string) \<Rightarrow> (string \<Rightarrow> string + jsval) \<Rightarrow> string option js \<Rightarrow> jsval js" where
  "analyzeChart_try trim JSON_parse response =
     (case response of
        Inl e \<Rightarrow> Inl e
      | Inr None \<Rightarrow> Inl (cannot_read ''undefined'' ''trim'')
      | Inr (Some response_text) \<Rightarrow>
          (case JSON_parse (trim response_text) of
             Inl m \<Rightarrow> Inl (Exn SyntaxError m)
           | Inr result \<Rightarrow> validated result))"

text \<open>The \<^verbatim>\<open>catch\<close> of \<^verbatim>\<open>analyzeChart\<close>: whatever was thrown, a new \<^verbatim>\<open>Error\<close> is thrown.\<close>

definition analyzeChart ::
  "(string \<Rightarrow> string) \<Rightarrow> (string \<Rightarrow> string + jsval) \<Rightarrow> string option js \<Rightarrow> jsval js" where
  "analyzeChart trim JSON_parse response =
     (case analyzeChart_try trim JSON_parse response of
        Inr result \<Rightarrow> Inr result
      | Inl (Exn c m) \<Rightarrow> Inl (Exn Error (''Failed to analyze chart: '' @ m))
      | Inl NonError \<Rightarrow> Inl (Exn Error ''An unknown error occurred during chart analysis.''))"

text \<open>
  The response of the continuation call, as far as \<^verbatim>\<open>continueChart\<close> reads it:
  \<^verbatim>\<open>response.candidates[0].content.parts\<close>, each of which may be undefined, and in a
  part its \<^verbatim>\<open>inlineData\<close>, the encoded bytes with their MIME type.
\<close>

record blob =
  data :: string
  mimeType :: string

record part =
  partText :: "string option"
  inlineData :: "blob option"

record content =
  parts :: "part list option"

record candidate =
  content :: "content option"

record response =
  candidates :: "candidate list option"

text \<open>The \<^verbatim>\<open>for\<close> loop over the parts and the \<^verbatim>\<open>throw\<close> that follows it.\<close>

fun scan_parts :: "part list \<Rightarrow> string js" where
  "scan_parts [] = Inl (Exn Error ''No image was generated in the response.'')"
| "scan_parts (p # ps) =
     (case inlineData p of Some b \<Rightarrow> Inr (data b) | None \<Rightarrow> scan_parts ps)"

definition continueChart_try :: "response js \<Rightarrow> string js" where
  "continueChart_try outcome =
     (case outcome of
        Inl e \<Rightarrow> Inl e
      | Inr r \<Rightarrow>
          (case candidates r of
             None \<Rightarrow> Inl (cannot_read ''undefined'' ''0'')
           | Some [] \<Rightarrow> Inl (cannot_read ''undefined'' ''content'')
           | Some (c # cs) \<Rightarrow>
               (case content c of
                  None \<Rightarrow> Inl (cannot_read ''undefined'' ''parts'')
                | Some ct \<Rightarrow>
                    (case parts ct of
                       None \<Rightarrow> Inl (Exn TypeError ''undefined is not iterable'')
                     | Some ps \<Rightarrow> scan_parts ps))))"

definition continueChart :: "response js \<Rightarrow> string js" where
  "continueChart outcome =
     (case continueChart_try outcome of
        Inr d \<Rightarrow> Inr d
      | Inl (Exn c m) \<Rightarrow> Inl (Exn Error (''Failed to continue chart: '' @ m))
      | Inl NonError \<Rightarrow> Inl (Exn Error ''An unknown error occurred during chart continuation.''))"

text \<open>
  The content parts of a response: the parts of the content of its first candidate,
  which are the ones \<^verbatim>\<open>continueChart\<close> scans. \<open>first_parts\<close> is \<open>None\<close> when the
  response has no candidates, or its first candidate no content, or that content no
  parts; \<open>response_parts\<close> then has no part at all.
\<close>

definition first_parts :: "response \<Rightarrow> part list option" where
  "first_parts r =
     (case candidates r of
        None \<Rightarrow> None
      | Some [] \<Rightarrow> None
      | Some (c # cs) \<Rightarrow> (case content c of None \<Rightarrow> None | Some ct \<Rightarrow> parts ct))"

definition response_parts :: "response \<Rightarrow> part list" where
  "response_parts r = (case first_parts r of None \<Rightarrow> [] | Some ps \<Rightarrow> ps)"

section \<open>The continuation button of the viewer\<close>

text \<open>
  \<^verbatim>\<open>handleGenerateContinuation\<close>, with the prop \<^verbatim>\<open>result\<close> and the outcome of the awaited
  \<^verbatim>\<open>continueChart\<close> call as inputs. Every update is an assignment of a fixed value to a
  hook, so the updates before and after the \<^verbatim>\<open>await\<close> are applied in order to the state.
\<close>

definition handleGenerateContinuation :: "jsval option \<Rightarrow> string js \<Rightarrow> viewer \<Rightarrow> viewer" where
  "handleGenerateContinuation result outcome s =
     (if result = None \<or> isGenerating s then s
      else let s1 = s\<lparr>isGenerating := True, generationError := None\<rparr>;
               s2 = (case outcome of
                       Inr newImageBase64 \<Rightarrow>
                         handleReset
                           (s1\<lparr>continuedImageSrc := Some (''data:image/png;base64,'' @ newImageBase64),
                               viewingOriginal := False\<rparr>)
                     | Inl (Exn c m) \<Rightarrow> s1\<lparr>generationError := Some m\<rparr>
                     | Inl NonError \<Rightarrow> s1\<lparr>generationError := Some ''An unknown error occurred.''\<rparr>)
           in s2\<lparr>isGenerating := False\<rparr>)"

text \<open>
  The image the viewer shows:
  \<^verbatim>\<open>viewingOriginal || !continuedImageSrc ? imageSrc : continuedImageSrc\<close>.
\<close>

definition displayImageSrc :: "string \<Rightarrow> viewer \<Rightarrow> string" where
  "displayImageSrc imageSrc s =
     (case continuedImageSrc s of
        None \<Rightarrow> imageSrc
      | Some c \<Rightarrow> if viewingOriginal s \<or> c = [] then imageSrc else c)"

text \<open>
  The two thumbnails, and the effect that runs 300 ms after the viewer is closed.
  \<^verbatim>\<open>viewPredicted\<close> tests \<^verbatim>\<open>continuedImageSrc\<close> for truthiness: neither null nor empty.
\<close>

definition viewOriginal :: "viewer \<Rightarrow> viewer" where
  "viewOriginal s =
     (if \<not> viewingOriginal s then handleReset (s\<lparr>viewingOriginal := True\<rparr>) else s)"

definition viewPredicted :: "viewer \<Rightarrow> viewer" where
  "viewPredicted s =
     (if viewingOriginal s \<and> continuedImageSrc s \<noteq> None \<and> continuedImageSrc s \<noteq> Some []
      then handleReset (s\<lparr>viewingOriginal := False\<rparr>) else s)"

definition closeEffect :: "viewer \<Rightarrow> viewer" where
  "closeEffect s =
     (handleReset s)\<lparr>continuedImageSrc := None, viewingOriginal := True,
                     isGenerating := False, generationError := None\<rparr>"

text \<open>
  The events of the viewer and the handler each one runs; pointer-up and pointer-leave
  share \<^verbatim>\<open>handleMouseUp\<close>. A continuation request is taken with its outcome, as one
  step.
\<close>

datatype event =
    Wheel "rect option" wheel_event
  | MouseDown mouse_event
  | MouseUp
  | MouseLeave
  | MouseMove mouse_event
  | Reset
  | ViewOriginal
  | ViewPredicted
  | Closed
  | Generate "jsval option" "string js"

fun step :: "event \<Rightarrow> viewer \<Rightarrow> viewer" where
  "step (Wheel c e) s = handleWheel c e s"
| "step (MouseDown e) s = handleMouseDown e s"
| "step MouseUp s = handleMouseUp s"
| "step MouseLeave s = handleMouseUp s"
| "step (MouseMove e) s = handleMouseMove e s"
| "step Reset s = handleReset s"
| "step ViewOriginal s = viewOriginal s"
| "step ViewPredicted s = viewPredicted s"
| "step Closed s = closeEffect s"
| "step (Generate result outcome) s = handleGenerateContinuation result outcome s"

fun run :: "event list \<Rightarrow> viewer \<Rightarrow> viewer" where
  "run [] s = s"
| "run (e # es) s = run es (step e s)"

section \<open>The validation rules of the specification\<close>

text \<open>
  The field \<open>k\<close> of a decoded value: the value stored under \<open>k\<close> in an object, and
  absent (\<open>JUndefined\<close>) in an object without that key and in anything that is not an
  object. \<open>at_path\<close> follows a path of fields, as in \<^verbatim>\<open>annotation.start.x\<close>.
\<close>

fun fld :: "jsval \<Rightarrow> string \<Rightarrow> jsval" where
  "fld (JObj kvs) k = (case map_of kvs k of None \<Rightarrow> JUndefined | Some v \<Rightarrow> v)"
| "fld v k = JUndefined"

definition at_path :: "jsval \<Rightarrow> string list \<Rightarrow> jsval" where
  "at_path v ks = foldl fld v ks"

definition present :: "jsval \<Rightarrow> string list \<Rightarrow> bool" where
  "present v p \<longleftrightarrow> at_path v p \<noteq> JUndefined"

definition is_string :: "jsval \<Rightarrow> bool" where
  "is_string v = (case v of JStr s \<Rightarrow> True | _ \<Rightarrow> False)"

definition is_number :: "jsval \<Rightarrow> bool" where
  "is_number v = (case v of JNum n \<Rightarrow> True | _ \<Rightarrow> False)"

text \<open>The required fields, as the specification lists them.\<close>

definition required_fields :: "string list list" where
  "required_fields =
     [[''prediction''], [''recommendation''], [''confidence''], [''rationale''],
      [''annotation''], [''annotation'', ''type''],
      [''annotation'', ''start''], [''annotation'', ''end''],
      [''annotation'', ''start'', ''x''], [''annotation'', ''start'', ''y''],
      [''annotation'', ''end'', ''x''], [''annotation'', ''end'', ''y'']]"

definition missing_required :: "jsval \<Rightarrow> bool" where
  "missing_required v \<longleftrightarrow> (\<exists>p \<in> set required_fields. \<not> present v p)"

text \<open>The recommendation is exactly one of the three literals.\<close>

definition recommendation_listed :: "jsval \<Rightarrow> bool" where
  "recommendation_listed v \<longleftrightarrow>
     at_path v [''recommendation''] \<in> {JStr ''BUY'', JStr ''SELL'', JStr ''HOLD''}"

text \<open>
  The rules of section 4.1 of the specification, in its words: prediction and rationale
  present and strings; recommendation one of the three literals; confidence present and
  a number; annotation present, with a type, and with start and end points that have
  numeric x and y.
\<close>

definition spec_valid :: "jsval \<Rightarrow> bool" where
  "spec_valid v \<longleftrightarrow>
     is_string (at_path v [''prediction''])
   \<and> is_string (at_path v [''rationale''])
   \<and> recommendation_listed v
   \<and> is_number (at_path v [''confidence''])
   \<and> present v [''annotation'']
   \<and> present v [''annotation'', ''type'']
   \<and> is_number (at_path v [''annotation'', ''start'', ''x''])
   \<and> is_number (at_path v [''annotation'', ''start'', ''y''])
   \<and> is_number (at_path v [''annotation'', ''end'', ''x''])
   \<and> is_number (at_path v [''annotation'', ''end'', ''y''])"

text \<open>
  What the condition of the validating \<^verbatim>\<open>if\<close> decides for a value that is neither
  \<^verbatim>\<open>null\<close> nor \<^verbatim>\<open>undefined\<close>, read field by field (lemma \<open>invalid_accepts\<close> below).
\<close>

definition accepts :: "jsval \<Rightarrow> bool" where
  "accepts r \<longleftrightarrow>
     truthy (fld r ''prediction'')
   \<and> truthy (fld r ''recommendation'')
   \<and> fld r ''recommendation'' \<in> set (map JStr Recommendation)
   \<and> typeof (fld r ''confidence'') = ''number''
   \<and> truthy (fld r ''rationale'')
   \<and> truthy (fld r ''annotation'')
   \<and> truthy (fld (fld r ''annotation'') ''type'')
   \<and> truthy (fld (fld r ''annotation'') ''start'')
   \<and> typeof (fld (fld (fld r ''annotation'') ''start'') ''x'') = ''number''
   \<and> typeof (fld (fld (fld r ''annotation'') ''start'') ''y'') = ''number''
   \<and> truthy (fld (fld r ''annotation'') ''end'')
   \<and> typeof (fld (fld (fld r ''annotation'') ''end'') ''x'') = ''number''
   \<and> typeof (fld (fld (fld r ''annotation'') ''end'') ''y'') = ''number''"

section \<open>Sample inputs\<close>

text \<open>
  An analysis object with the five fields given, and the annotation and the result of
  the specification's scenario (a HOLD with confidence 55 and a line overlay).
\<close>

definition analysis_json :: "jsval \<Rightarrow> jsval \<Rightarrow> jsval \<Rightarrow> jsval \<Rightarrow> jsval \<Rightarrow> jsval" where
  "analysis_json p r c t a =
     JObj [(''prediction'', p), (''recommendation'', r), (''confidence'', c),
           (''rationale'', t), (''annotation'', a)]"

definition sample_annotation :: jsval where
  "sample_annotation =
     JObj [(''type'', JStr ''line''),
           (''start'', JObj [(''x'', JNum 10), (''y'', JNum 50)]),
           (''end'', JObj [(''x'', JNum 90), (''y'', JNum 55)])]"

definition sample_result :: jsval where
  "sample_result =
     analysis_json (JStr ''sideways drift'') (JStr ''HOLD'') (JNum 55) (JStr ''...'')
       sample_annotation"

text \<open>
  A stand-in for \<^verbatim>\<open>JSON.parse\<close> on two inputs: the empty object, and text that is not
  JSON.
\<close>

definition sample_parse :: "string \<Rightarrow> string + jsval" where
  "sample_parse s = (if s = ''{}'' then Inr (JObj []) else Inl ''Unexpected token o in JSON'')"

section \<open>Properties of the viewer\<close>

lemma newScale_bounds: "1 \<le> newScale e s \<and> newScale e s \<le> 8"
  by (simp add: newScale_def MIN_SCALE_def MAX_SCALE_def Let_def)

lemma handleWheel_scale_bounds:
  "1 \<le> scale s \<and> scale s \<le> 8 \<Longrightarrow>
   1 \<le> scale (handleWheel c e s) \<and> scale (handleWheel c e s) \<le> 8"
  using newScale_bounds [of e s]
  by (cases c) (simp_all add: handleWheel_def Let_def)

lemma wheels_scale_bounds:
  "1 \<le> scale s \<and> scale s \<le> 8 \<Longrightarrow>
   1 \<le> scale (wheels es s) \<and> scale (wheels es s) \<le> 8"
proof (induction es arbitrary: s)
  case Nil
  then show ?case by simp
next
  case (Cons ce es)
  obtain c e where ce: "ce = (c, e)" by (cases ce)
  from Cons.prems have "1 \<le> scale (handleWheel c e s) \<and> scale (handleWheel c e s) \<le> 8"
    by (rule handleWheel_scale_bounds)
  then show ?case unfolding ce wheels.simps by (rule Cons.IH)
qed

text \<open>
  The scale stays within [1, 8] along every sequence of events of the viewer, from the
  state the hooks are created with.
\<close>

lemma step_scale_bounds:
  assumes "1 \<le> scale s \<and> scale s \<le> 8"
  shows "1 \<le> scale (step e s) \<and> scale (step e s) \<le> 8"
proof (cases e)
  case (Wheel c w)
  with assms show ?thesis using handleWheel_scale_bounds [of s c w] by simp
next
  case (Generate result outcome)
  with assms show ?thesis
    by (simp add: handleGenerateContinuation_def handleReset_def Let_def
        split: sum.splits thrown.splits)
qed (use assms in \<open>simp_all add: handleMouseDown_def handleMouseUp_def handleMouseMove_def
      handleReset_def viewOriginal_def viewPredicted_def closeEffect_def Let_def\<close>)

lemma run_scale_bounds:
  "1 \<le> scale s \<and> scale s \<le> 8 \<Longrightarrow> 1 \<le> scale (run es s) \<and> scale (run es s) \<le> 8"
proof (induction es arbitrary: s)
  case Nil
  then show ?case by simp
next
  case (Cons e es)
  from Cons.prems have "1 \<le> scale (step e s) \<and> scale (step e s) \<le> 8"
    by (rule step_scale_bounds)
  then show ?case unfolding run.simps by (rule Cons.IH)
qed

lemma reachable_scale_bounds:
  "1 \<le> scale (run es initial) \<and> scale (run es initial) \<le> 8"
  by (rule run_scale_bounds) (simp add: initial_def)

lemma handleReset_viewport:
  "scale (handleReset s) = 1 \<and> position (handleReset s) = \<lparr>px = 0, py = 0\<rparr>"
  by (simp add: handleReset_def)

text \<open>
  C5. The reset operation is to leave the viewer at rest: scale 1, offset (0, 0) and no
  drag in progress. It does set the scale and the offset, but it never assigns the
  dragging flag. Here the user zooms to scale 2 and presses the pointer, and a reset
  arrives before the pointer is released: the flag is still set after the reset, and
  the next pointer-move pans the image at scale 1, where \<^verbatim>\<open>handleMouseDown\<close> allows no
  drag to start.
\<close>

theorem handleReset_mid_drag:
  "isDragging (run [Wheel (Some \<lparr>rect_left = 10, rect_top = 20\<rparr>)
                      \<lparr>clientX = 110, clientY = 70, deltaY = - 500\<rparr>,
                    MouseDown \<lparr>clientX = 110, clientY = 70\<rparr>] initial)
   \<and> scale (run [Wheel (Some \<lparr>rect_left = 10, rect_top = 20\<rparr>)
                      \<lparr>clientX = 110, clientY = 70, deltaY = - 500\<rparr>,
                 MouseDown \<lparr>clientX = 110, clientY = 70\<rparr>, Reset] initial) = 1
   \<and> position (run [Wheel (Some \<lparr>rect_left = 10, rect_top = 20\<rparr>)
                      \<lparr>clientX = 110, clientY = 70, deltaY = - 500\<rparr>,
                    MouseDown \<lparr>clientX = 110, clientY = 70\<rparr>, Reset] initial)
       = \<lparr>px = 0, py = 0\<rparr>
   \<and> isDragging (run [Wheel (Some \<lparr>rect_left = 10, rect_top = 20\<rparr>)
                      \<lparr>clientX = 110, clientY = 70, deltaY = - 500\<rparr>,
                    MouseDown \<lparr>clientX = 110, clientY = 70\<rparr>, Reset] initial)
   \<and> scale (run [Wheel (Some \<lparr>rect_left = 10, rect_top = 20\<rparr>)
                      \<lparr>clientX = 110, clientY = 70, deltaY = - 500\<rparr>,
                 MouseDown \<lparr>clientX = 110, clientY = 70\<rparr>, Reset,
                 MouseMove \<lparr>clientX = 150, clientY = 90\<rparr>] initial) = 1
   \<and> position (run [Wheel (Some \<lparr>rect_left = 10, rect_top = 20\<rparr>)
                      \<lparr>clientX = 110, clientY = 70, deltaY = - 500\<rparr>,
                    MouseDown \<lparr>clientX = 110, clientY = 70\<rparr>, Reset,
                    MouseMove \<lparr>clientX = 150, clientY = 90\<rparr>] initial)
       = \<lparr>px = - 60, py = - 30\<rparr>"
proof -
  let ?w = "\<lparr>clientX = 110, clientY = 70, deltaY = - 500\<rparr>"
  have n: "newScale ?w initial = 2"
    by (simp add: newScale_def MIN_SCALE_def MAX_SCALE_def ZOOM_SENSITIVITY_def initial_def)
  have z: "handleWheel (Some \<lparr>rect_left = 10, rect_top = 20\<rparr>) ?w initial
             = initial\<lparr>scale := 2, position := \<lparr>px = - 100, py = - 50\<rparr>\<rparr>"
    by (simp add: handleWheel_def n) (simp add: initial_def)
  show ?thesis
    by (simp add: z handleMouseDown_def handleReset_def handleMouseMove_def)
qed

lemma newScale_clamp:
  "newScale e s = clamp (scale s * (1 + (- deltaY e * 0.002))) 1 8"
  by (simp add: newScale_def clamp_def MIN_SCALE_def MAX_SCALE_def ZOOM_SENSITIVITY_def Let_def)

text \<open>
  C4. Starting from scale 1, after each event of any finite sequence of wheel events
  (any deltaY, any pointer position, the container ref attached or not) the scale is
  within [1, 8]: \<open>take n es\<close> is the sequence up to its n-th event.
\<close>

theorem wheels_scale_clamped:
  assumes "scale s = 1"
  shows "1 \<le> scale (wheels (take n es) s) \<and> scale (wheels (take n es) s) \<le> 8"
proof -
  from assms have "1 \<le> scale s \<and> scale s \<le> 8" by simp
  then show ?thesis by (rule wheels_scale_bounds)
qed

theorem wheels_scale_clamped_witness:
  "scale initial = 1
   \<and> 1 \<le> scale (wheels (take 2
        [(Some \<lparr>rect_left = 10, rect_top = 20\<rparr>, \<lparr>clientX = 110, clientY = 70, deltaY = - 4000\<rparr>),
         (Some \<lparr>rect_left = 10, rect_top = 20\<rparr>, \<lparr>clientX = 30, clientY = 40, deltaY = 100\<rparr>)]) initial)
   \<and> scale (wheels (take 2
        [(Some \<lparr>rect_left = 10, rect_top = 20\<rparr>, \<lparr>clientX = 110, clientY = 70, deltaY = - 4000\<rparr>),
         (Some \<lparr>rect_left = 10, rect_top = 20\<rparr>, \<lparr>clientX = 30, clientY = 40, deltaY = 100\<rparr>)]) initial) \<le> 8"
proof -
  have h: "scale initial = 1" by (simp add: initial_def)
  show ?thesis
    using h wheels_scale_clamped [OF h, of 2
        "[(Some \<lparr>rect_left = 10, rect_top = 20\<rparr>, \<lparr>clientX = 110, clientY = 70, deltaY = - 4000\<rparr>),
          (Some \<lparr>rect_left = 10, rect_top = 20\<rparr>, \<lparr>clientX = 30, clientY = 40, deltaY = 100\<rparr>)]"]
    by simp
qed

text \<open>
  C8. For every wheel event the container receives, the scale after the handler is
  \<^verbatim>\<open>clamp(scale * (1 + (-deltaY * 0.002)), 1, 8)\<close>; and whenever that value equals the
  current scale the handler returns the state it was given, scale and offset included.
\<close>

theorem handleWheel_scale:
  "scale (handleWheel (Some r) e s) = clamp (scale s * (1 + (- deltaY e * 0.002))) 1 8
   \<and> (clamp (scale s * (1 + (- deltaY e * 0.002))) 1 8 = scale s \<longrightarrow>
        handleWheel (Some r) e s = s)"
proof -
  have c: "clamp (scale s * (1 + (- deltaY e * 0.002))) 1 8 = newScale e s"
    by (simp only: newScale_clamp)
  show ?thesis unfolding c by (simp add: handleWheel_def Let_def)
qed

theorem handleWheel_scale_witness:
  "scale (handleWheel (Some \<lparr>rect_left = 10, rect_top = 20\<rparr>)
       \<lparr>clientX = 110, clientY = 70, deltaY = 100\<rparr> initial)
     = clamp (scale initial * (1 + (- deltaY \<lparr>clientX = 110, clientY = 70, deltaY = 100\<rparr> * 0.002))) 1 8
   \<and> clamp (scale initial * (1 + (- deltaY \<lparr>clientX = 110, clientY = 70, deltaY = 100\<rparr> * 0.002))) 1 8
       = scale initial
   \<and> handleWheel (Some \<lparr>rect_left = 10, rect_top = 20\<rparr>)
       \<lparr>clientX = 110, clientY = 70, deltaY = 100\<rparr> initial = initial"
proof -
  have h: "clamp (scale initial * (1 + (- deltaY \<lparr>clientX = 110, clientY = 70, deltaY = 100\<rparr> * 0.002))) 1 8
             = scale initial"
    by (simp add: clamp_def initial_def)
  show ?thesis
    using h handleWheel_scale [of "\<lparr>rect_left = 10, rect_top = 20\<rparr>"
        "\<lparr>clientX = 110, clientY = 70, deltaY = 100\<rparr>" initial]
    by simp
qed





section \<open>Properties of the validation\<close>

lemma get_fld:
  "get v k = (if v = JUndefined then Inl (cannot_read ''undefined'' k)
              else if v = JNull then Inl (cannot_read ''null'' k) else Inr (fld v k))"
  by (cases v) simp_all

lemma truthy_defined: "truthy v \<Longrightarrow> v \<noteq> JUndefined \<and> v \<noteq> JNull"
  by (cases v) simp_all

lemma read1: "r \<noteq> JUndefined \<Longrightarrow> r \<noteq> JNull \<Longrightarrow> read r [k] = Inr (fld r k)"
  by (simp add: get_fld)

lemma read2:
  "r \<noteq> JUndefined \<Longrightarrow> r \<noteq> JNull \<Longrightarrow> truthy (fld r k) \<Longrightarrow>
   read r [k, k'] = Inr (fld (fld r k) k')"
  using truthy_defined [of "fld r k"] by (simp add: get_fld)

lemma read3:
  "r \<noteq> JUndefined \<Longrightarrow> r \<noteq> JNull \<Longrightarrow> truthy (fld r k) \<Longrightarrow>
   truthy (fld (fld r k) k') \<Longrightarrow>
   read r [k, k', k''] = Inr (fld (fld (fld r k) k') k'')"
  using truthy_defined [of "fld r k"] truthy_defined [of "fld (fld r k) k'"]
  by (simp add: get_fld)

lemma any_of_Inr: "any_of (Inr b # cs) = (if b then Inr True else any_of cs)"
  by simp

text \<open>
  Every nested read of the condition is guarded by an earlier operand, so for a value
  that is neither \<^verbatim>\<open>null\<close> nor \<^verbatim>\<open>undefined\<close> the condition never throws and is the
  negation of \<open>accepts\<close>.
\<close>

lemma invalid_accepts:
  assumes "r \<noteq> JUndefined" and "r \<noteq> JNull"
  shows "invalid r = Inr (\<not> accepts r)"
  using assms
  by (simp add: invalid_def accepts_def falsy_def not_number_def not_included_def
      read1 read2 read3 any_of_Inr del: read.simps any_of.simps(2))

lemma validated_accepts:
  assumes "r \<noteq> JUndefined" and "r \<noteq> JNull"
  shows "validated r = (if accepts r then Inr r
           else Inl (Exn Error ''Invalid analysis data structure received from API.''))"
  by (simp add: validated_def invalid_accepts [OF assms])

lemma validated_undefined:
  "validated JUndefined = Inl (cannot_read ''undefined'' ''prediction'')"
  by (simp add: validated_def invalid_def falsy_def)

lemma validated_null:
  "validated JNull = Inl (cannot_read ''null'' ''prediction'')"
  by (simp add: validated_def invalid_def falsy_def)

lemma accepts_defined: "accepts v \<Longrightarrow> v \<noteq> JUndefined \<and> v \<noteq> JNull"
  by (auto simp add: accepts_def)

lemma not_accepts_rejected:
  assumes "\<not> accepts v"
  shows "\<exists>e. validated v = Inl e"
proof (cases "v = JUndefined \<or> v = JNull")
  case True
  then show ?thesis using validated_undefined validated_null by auto
next
  case False
  with assms show ?thesis by (simp add: validated_accepts)
qed

lemma validated_thrown:
  assumes "validated v = Inl e"
  shows "\<exists>c m. e = Exn c m"
proof (cases "v = JUndefined \<or> v = JNull")
  case True
  with assms show ?thesis
    using validated_undefined validated_null by (auto simp add: cannot_read_def)
next
  case False
  with assms show ?thesis by (auto simp add: validated_accepts split: if_splits)
qed

lemma validated_result: "validated v = Inr r \<Longrightarrow> r = v"
  by (simp add: validated_def split: sum.splits bool.splits)

lemma fld_defined_truthy: "fld v k \<noteq> JUndefined \<Longrightarrow> truthy v"
  by (cases v) simp_all

lemma is_number_typeof: "is_number v \<longleftrightarrow> typeof v = ''number''"
  by (cases v) (simp_all add: is_number_def)

lemma is_number_defined: "is_number v \<Longrightarrow> v \<noteq> JUndefined"
  by (cases v) (simp_all add: is_number_def)

lemma is_string_truthy: "is_string v \<Longrightarrow> truthy v \<longleftrightarrow> v \<noteq> JStr []"
  by (cases v) (simp_all add: is_string_def)

lemma spec_valid_accepts:
  assumes "spec_valid v"
    and "at_path v [''prediction''] \<noteq> JStr []"
    and "at_path v [''rationale''] \<noteq> JStr []"
    and "truthy (at_path v [''annotation'', ''type''])"
  shows "accepts v"
proof -
  let ?a = "fld v ''annotation''"
  from assms(1) have sx: "is_number (fld (fld ?a ''start'') ''x'')"
    and sy: "is_number (fld (fld ?a ''start'') ''y'')"
    and ex: "is_number (fld (fld ?a ''end'') ''x'')"
    and ey: "is_number (fld (fld ?a ''end'') ''y'')"
    and ty: "fld ?a ''type'' \<noteq> JUndefined"
    and ps: "is_string (fld v ''prediction'')" "is_string (fld v ''rationale'')"
    and cf: "is_number (fld v ''confidence'')"
    and rc: "fld v ''recommendation'' \<in> {JStr ''BUY'', JStr ''SELL'', JStr ''HOLD''}"
    by (simp_all add: spec_valid_def at_path_def present_def recommendation_listed_def)
  have "truthy (fld ?a ''start'')" "truthy (fld ?a ''end'')"
    using sx ex by (auto dest!: is_number_defined fld_defined_truthy)
  moreover have "truthy ?a" using ty by (rule fld_defined_truthy)
  moreover have "truthy (fld v ''prediction'')" "truthy (fld v ''rationale'')"
    using ps assms(2,3) by (simp_all add: is_string_truthy at_path_def)
  moreover have "truthy (fld v ''recommendation'')"
    "fld v ''recommendation'' \<in> set (map JStr Recommendation)"
    using rc by (auto simp add: Recommendation_def)
  ultimately show ?thesis
    using sx sy ex ey cf assms(4)
    by (simp add: accepts_def is_number_typeof at_path_def)
qed

lemma missing_not_accepts: "missing_required v \<Longrightarrow> \<not> accepts v"
  by (auto simp add: missing_required_def required_fields_def present_def at_path_def
      accepts_def)

lemma unlisted_not_accepts: "\<not> recommendation_listed v \<Longrightarrow> \<not> accepts v"
  by (auto simp add: recommendation_listed_def at_path_def accepts_def Recommendation_def)

lemma empty_string_not_accepts:
  "fld v ''prediction'' = JStr [] \<or> fld v ''rationale'' = JStr [] \<Longrightarrow> \<not> accepts v"
  by (auto simp add: accepts_def)

lemmas sample_defs =
  analysis_json_def sample_annotation_def sample_result_def

lemmas validation_defs =
  validated_def invalid_def falsy_def not_number_def not_included_def Recommendation_def

lemmas spec_defs =
  spec_valid_def recommendation_listed_def present_def at_path_def is_string_def
  is_number_def missing_required_def required_fields_def

text \<open>
  C2 (as amended). Every decoded value that satisfies the rules of section 4.1 and whose
  prediction and rationale are not the empty string and whose annotation type is truthy
  is accepted, and the result returned is the decoded value itself.
\<close>

theorem validation_accepts:
  assumes "spec_valid v"
    and "at_path v [''prediction''] \<noteq> JStr []"
    and "at_path v [''rationale''] \<noteq> JStr []"
    and "truthy (at_path v [''annotation'', ''type''])"
  shows "validated v = Inr v"
proof -
  have a: "accepts v" using assms by (rule spec_valid_accepts)
  with accepts_defined [OF a] show ?thesis by (simp add: validated_accepts)
qed

theorem validation_accepts_witness:
  "spec_valid sample_result
   \<and> at_path sample_result [''prediction''] \<noteq> JStr []
   \<and> at_path sample_result [''rationale''] \<noteq> JStr []
   \<and> truthy (at_path sample_result [''annotation'', ''type''])
   \<and> validated sample_result = Inr sample_result"
proof -
  have h1: "spec_valid sample_result"
    and h2: "at_path sample_result [''prediction''] \<noteq> JStr []"
    and h3: "at_path sample_result [''rationale''] \<noteq> JStr []"
    and h4: "truthy (at_path sample_result [''annotation'', ''type''])"
    by (simp_all add: spec_defs sample_defs)
  from validation_accepts [OF h1 h2 h3 h4] h1 h2 h3 h4 show ?thesis by blast
qed

text \<open>
  C2 as stated fails: a result whose rationale is the empty string satisfies every rule
  of section 4.1 (the rationale is present and is a string) and is rejected.
\<close>

theorem validation_rejects_empty_rationale:
  "spec_valid (analysis_json (JStr ''sideways drift'') (JStr ''HOLD'') (JNum 55) (JStr [])
       sample_annotation)
   \<and> validated (analysis_json (JStr ''sideways drift'') (JStr ''HOLD'') (JNum 55) (JStr [])
       sample_annotation)
     = Inl (Exn Error ''Invalid analysis data structure received from API.'')"
  by (simp add: spec_defs sample_defs validation_defs)

text \<open>
  C3. Every decoded value that lacks a required field (prediction, recommendation,
  confidence, rationale, annotation, the annotation's type, start or end, or the x or y
  of a point), or whose recommendation is not exactly one of BUY, SELL and HOLD, is
  rejected: the validation throws and returns no result.
\<close>

theorem validation_rejects:
  assumes "missing_required v \<or> \<not> recommendation_listed v"
  shows "\<exists>e. validated v = Inl e"
  using assms missing_not_accepts unlisted_not_accepts not_accepts_rejected by blast

theorem validation_rejects_witness:
  "(missing_required (analysis_json (JStr ''up'') (JStr ''STRONG_BUY'') (JNum 90) (JStr ''...'')
        sample_annotation)
    \<or> \<not> recommendation_listed (analysis_json (JStr ''up'') (JStr ''STRONG_BUY'') (JNum 90)
        (JStr ''...'') sample_annotation))
   \<and> (\<exists>e. validated (analysis_json (JStr ''up'') (JStr ''STRONG_BUY'') (JNum 90) (JStr ''...'')
        sample_annotation) = Inl e)"
proof -
  have h: "missing_required (analysis_json (JStr ''up'') (JStr ''STRONG_BUY'') (JNum 90)
        (JStr ''...'') sample_annotation)
    \<or> \<not> recommendation_listed (analysis_json (JStr ''up'') (JStr ''STRONG_BUY'') (JNum 90)
        (JStr ''...'') sample_annotation)"
    by (simp add: spec_defs sample_defs)
  from validation_rejects [OF h] h show ?thesis by blast
qed

text \<open>
  C10. The validation tests prediction and rationale for truthiness, not for being
  strings: there is an accepted input whose prediction is a number, and one whose
  rationale is a number; and every input whose prediction or rationale is the empty
  string is rejected.
\<close>

theorem validation_truthiness:
  "(\<exists>v. typeof (fld v ''prediction'') = ''number'' \<and> validated v = Inr v)
   \<and> (\<exists>v. typeof (fld v ''rationale'') = ''number'' \<and> validated v = Inr v)
   \<and> (\<forall>v. fld v ''prediction'' = JStr [] \<or> fld v ''rationale'' = JStr []
          \<longrightarrow> (\<exists>e. validated v = Inl e))"
proof (intro conjI allI impI)
  let ?p = "analysis_json (JNum 42) (JStr ''BUY'') (JNum 80) (JStr ''breakout'') sample_annotation"
  have "typeof (fld ?p ''prediction'') = ''number'' \<and> validated ?p = Inr ?p"
    by (simp add: sample_defs validation_defs)
  then show "\<exists>v. typeof (fld v ''prediction'') = ''number'' \<and> validated v = Inr v" ..
next
  let ?r = "analysis_json (JStr ''up'') (JStr ''BUY'') (JNum 80) (JNum 7) sample_annotation"
  have "typeof (fld ?r ''rationale'') = ''number'' \<and> validated ?r = Inr ?r"
    by (simp add: sample_defs validation_defs)
  then show "\<exists>v. typeof (fld v ''rationale'') = ''number'' \<and> validated v = Inr v" ..
next
  fix v
  assume "fld v ''prediction'' = JStr [] \<or> fld v ''rationale'' = JStr []"
  then have "\<not> accepts v" by (rule empty_string_not_accepts)
  then show "\<exists>e. validated v = Inl e" by (rule not_accepts_rejected)
qed

theorem validation_truthiness_witness:
  "fld (analysis_json (JStr []) (JStr ''BUY'') (JNum 80) (JStr ''breakout'') sample_annotation)
       ''prediction'' = JStr []
   \<and> (\<exists>e. validated (analysis_json (JStr []) (JStr ''BUY'') (JNum 80) (JStr ''breakout'')
        sample_annotation) = Inl e)"
proof -
  let ?v = "analysis_json (JStr []) (JStr ''BUY'') (JNum 80) (JStr ''breakout'') sample_annotation"
  have h: "fld ?v ''prediction'' = JStr []"
    by (simp add: sample_defs)
  from validation_truthiness have
    "fld ?v ''prediction'' = JStr [] \<or> fld ?v ''rationale'' = JStr []
       \<longrightarrow> (\<exists>e. validated ?v = Inl e)"
    by blast
  with h show ?thesis by blast
qed

section \<open>Properties of the service calls\<close>

text \<open>
  C6. The analyze operation either returns a value that passed the validation or throws
  a plain \<^verbatim>\<open>Error\<close>, and nothing else. A service error, a JSON parse failure and a
  validation failure each surface as that one kind, with the message
  \<^verbatim>\<open>Failed to analyze chart: \<close> followed by the message of the underlying error; a
  thrown value that is not an \<^verbatim>\<open>Error\<close>, and so has no message, surfaces as the same
  kind with a fixed text.
\<close>

theorem analyzeChart_failures:
  "((\<exists>r. analyzeChart trim JSON_parse response = Inr r \<and> validated r = Inr r)
      \<or> (\<exists>m. analyzeChart trim JSON_parse response = Inl (Exn Error m)))
   \<and> (response = Inl (Exn c m) \<longrightarrow>
        analyzeChart trim JSON_parse response
          = Inl (Exn Error (''Failed to analyze chart: '' @ m)))
   \<and> (response = Inl NonError \<longrightarrow>
        analyzeChart trim JSON_parse response
          = Inl (Exn Error ''An unknown error occurred during chart analysis.''))
   \<and> (response = Inr (Some t) \<and> JSON_parse (trim t) = Inl m \<longrightarrow>
        analyzeChart trim JSON_parse response
          = Inl (Exn Error (''Failed to analyze chart: '' @ m)))
   \<and> (response = Inr (Some t) \<and> JSON_parse (trim t) = Inr r \<and> validated r = Inl e \<longrightarrow>
        (\<exists>c' m'. e = Exn c' m'
           \<and> analyzeChart trim JSON_parse response
               = Inl (Exn Error (''Failed to analyze chart: '' @ m'))))"
proof (intro conjI impI)
  show "(\<exists>r. analyzeChart trim JSON_parse response = Inr r \<and> validated r = Inr r)
      \<or> (\<exists>m. analyzeChart trim JSON_parse response = Inl (Exn Error m))"
  proof (cases "analyzeChart_try trim JSON_parse response")
    case (Inl e)
    then show ?thesis
      by (cases e) (simp_all add: analyzeChart_def)
  next
    case (Inr r)
    then have "validated r = Inr r"
      by (auto simp add: analyzeChart_try_def split: sum.splits option.splits
          dest: validated_result)
    with Inr show ?thesis by (simp add: analyzeChart_def)
  qed
next
  assume "response = Inl (Exn c m)"
  then show "analyzeChart trim JSON_parse response
          = Inl (Exn Error (''Failed to analyze chart: '' @ m))"
    by (simp add: analyzeChart_def analyzeChart_try_def)
next
  assume "response = Inl NonError"
  then show "analyzeChart trim JSON_parse response
          = Inl (Exn Error ''An unknown error occurred during chart analysis.'')"
    by (simp add: analyzeChart_def analyzeChart_try_def)
next
  assume "response = Inr (Some t) \<and> JSON_parse (trim t) = Inl m"
  then show "analyzeChart trim JSON_parse response
          = Inl (Exn Error (''Failed to analyze chart: '' @ m))"
    by (simp add: analyzeChart_def analyzeChart_try_def)
next
  assume a: "response = Inr (Some t) \<and> JSON_parse (trim t) = Inr r \<and> validated r = Inl e"
  then obtain c' m' where e: "e = Exn c' m'" using validated_thrown by blast
  with a have "analyzeChart trim JSON_parse response
               = Inl (Exn Error (''Failed to analyze chart: '' @ m'))"
    by (simp add: analyzeChart_def analyzeChart_try_def)
  with e show "\<exists>c' m'. e = Exn c' m'
           \<and> analyzeChart trim JSON_parse response
               = Inl (Exn Error (''Failed to analyze chart: '' @ m'))"
    by blast
qed

theorem analyzeChart_failures_witness:
  "analyzeChart (\<lambda>s. s) sample_parse (Inl (Exn OtherError ''429 Too Many Requests''))
     = Inl (Exn Error ''Failed to analyze chart: 429 Too Many Requests'')
   \<and> sample_parse ''oops'' = Inl ''Unexpected token o in JSON''
   \<and> analyzeChart (\<lambda>s. s) sample_parse (Inr (Some ''oops''))
     = Inl (Exn Error ''Failed to analyze chart: Unexpected token o in JSON'')
   \<and> sample_parse ''{}'' = Inr (JObj [])
   \<and> validated (JObj []) = Inl (Exn Error ''Invalid analysis data structure received from API.'')
   \<and> analyzeChart (\<lambda>s. s) sample_parse (Inr (Some ''{}''))
     = Inl (Exn Error
         ''Failed to analyze chart: Invalid analysis data structure received from API.'')"
proof -
  have p1: "sample_parse ''oops'' = Inl ''Unexpected token o in JSON''"
    and p2: "sample_parse ''{}'' = Inr (JObj [])"
    by (simp_all add: sample_parse_def)
  have v: "validated (JObj []) = Inl (Exn Error ''Invalid analysis data structure received from API.'')"
    by (simp add: validation_defs)
  from analyzeChart_failures [of "\<lambda>s. s" sample_parse
      "Inl (Exn OtherError ''429 Too Many Requests'')" OtherError "''429 Too Many Requests''"]
  have a1: "analyzeChart (\<lambda>s. s) sample_parse (Inl (Exn OtherError ''429 Too Many Requests''))
     = Inl (Exn Error ''Failed to analyze chart: 429 Too Many Requests'')"
    by simp
  from analyzeChart_failures [of "\<lambda>s. s" sample_parse "Inr (Some ''oops'')" _
      "''Unexpected token o in JSON''" "''oops''"] p1
  have a2: "analyzeChart (\<lambda>s. s) sample_parse (Inr (Some ''oops''))
     = Inl (Exn Error ''Failed to analyze chart: Unexpected token o in JSON'')"
    by simp
  from analyzeChart_failures [of "\<lambda>s. s" sample_parse "Inr (Some ''{}'')" _ _ "''{}''"
      "JObj []" "Exn Error ''Invalid analysis data structure received from API.''"] p2 v
  have a3: "analyzeChart (\<lambda>s. s) sample_parse (Inr (Some ''{}''))
     = Inl (Exn Error
         ''Failed to analyze chart: Invalid analysis data structure received from API.'')"
    by simp
  from a1 p1 a2 p2 v a3 show ?thesis by blast
qed

lemma continueChart_throws_Error:
  "(\<exists>d. continueChart outcome = Inr d) \<or> (\<exists>m. continueChart outcome = Inl (Exn Error m))"
  by (simp add: continueChart_def split: sum.splits thrown.splits)

lemma scan_parts_first:
  "\<forall>q \<in> set pre. inlineData q = None \<Longrightarrow> inlineData p = Some b \<Longrightarrow>
   scan_parts (pre @ p # post) = Inr (data b)"
  by (induction pre) simp_all

lemma scan_parts_none:
  "\<forall>q \<in> set ps. inlineData q = None \<Longrightarrow>
   scan_parts ps = Inl (Exn Error ''No image was generated in the response.'')"
  by (induction ps) simp_all

lemma continueChart_try_parts:
  "first_parts r = Some ps \<Longrightarrow> continueChart_try (Inr r) = scan_parts ps"
  by (cases "candidates r")
    (auto simp add: continueChart_try_def first_parts_def split: option.splits list.splits)

lemma continueChart_try_no_parts:
  "first_parts r = None \<Longrightarrow> \<exists>m. continueChart_try (Inr r) = Inl (Exn TypeError m)"
  by (simp add: continueChart_try_def first_parts_def cannot_read_def
      split: option.splits list.splits)




end
